theory Spec2Isabelle
  imports Complex_Main
begin

section \<open>The session reducer of the typing trainer (src/config/state.ts)\<close>

text \<open>
  The reducer of \<^verbatim>\<open>src/config/state.ts\<close> is a function from a state and an action to
  a state. It reads two things that are not arguments in the source: the clock
  (\<^verbatim>\<open>Date.now()\<close>) and the default word list \<^verbatim>\<open>en1000\<close>, imported from a JSON file. Both
  are arguments here: \<open>now\<close> is the reading of the clock during the transition,
  \<open>en1000\<close> is any list of strings.

  \<^verbatim>\<open>level\<close>, \<^verbatim>\<open>highestLevel\<close>, \<^verbatim>\<open>streak\<close> and \<^verbatim>\<open>targetStreak\<close> are indices and counts:
  natural numbers. Timestamps (milliseconds) and \<^verbatim>\<open>targetWPM\<close> are integers. An optional
  field (\<^verbatim>\<open>startTime?: number\<close>) is an \<open>option\<close>, \<open>None\<close> for \<^verbatim>\<open>undefined\<close>.

  \<^verbatim>\<open>playSound\<close> only talks to the audio context and never changes the state that the
  reducer returns; it is left out.
\<close>

subsection \<open>Strings\<close>

text \<open>
  A string is the list of its UTF-16 code units, each a number below 65536;
  \<^verbatim>\<open>length\<close>, indexing and \<^verbatim>\<open>split('')\<close> all go by code unit. \<open>utf16\<close> writes a string of
  code units below 256 from its characters: \<open>utf16 ''hi''\<close> is \<open>[104, 105]\<close>.
\<close>

type_synonym codeunit = nat

type_synonym jsstring = "codeunit list"

definition utf16 :: "string \<Rightarrow> jsstring" where
  "utf16 s = map of_char s"

subsection \<open>Double-precision arithmetic\<close>

text \<open>
  Every number of the program is an IEEE 754 binary64 value. A finite one is a
  rational; \<open>toDouble\<close> rounds a rational to the nearest binary64 value, a tie going to
  the even significand: with \<open>e\<close> the binary exponent of \<open>x\<close> (at least \<open>-1022\<close>, below
  which the values are subnormal), the values near \<open>x\<close> are the multiples of
  \<open>2 ^ (e - 52)\<close>. A result of magnitude \<open>2 ^ 1024\<close> or more is an infinity. The sign of a
  zero is not kept; the only division by zero in the program has the divisor
  \<^verbatim>\<open>x - x\<close>, which is \<open>+0\<close>. Lengths and timestamps are integers that binary64 holds
  exactly (of magnitude at most \<open>2 ^ 53\<close>).
\<close>

datatype double = Finite rat | PlusInfinity | MinusInfinity | NotANumber

definition pow2 :: "int \<Rightarrow> rat" where
  "pow2 e = (if e \<ge> 0 then 2 ^ nat e else 1 / 2 ^ nat (- e))"

function bitLength :: "int \<Rightarrow> int" where
  "bitLength n = (if n \<le> 0 then 0 else 1 + bitLength (n div 2))"
  by auto
termination
  by (relation "measure nat") auto

declare bitLength.simps [simp del]

text \<open>
  \<open>floorLog2 x\<close> is \<open>\<lfloor>log\<^sub>2 x\<rfloor>\<close> for a positive \<open>x = p / q\<close>: the difference of the bit
  lengths of \<open>p\<close> and \<open>q\<close>, or one less.
\<close>

definition floorLog2 :: "rat \<Rightarrow> int" where
  "floorLog2 x =
     (let (p, q) = quotient_of x;
          e = bitLength p - bitLength q
      in if pow2 e \<le> x then e else e - 1)"

definition roundTiesToEven :: "rat \<Rightarrow> int" where
  "roundTiesToEven q =
     (let f = \<lfloor>q\<rfloor>; r = q - of_int f in
      if r < 1 / 2 then f
      else if r > 1 / 2 then f + 1
      else if even f then f else f + 1)"

definition toDouble :: "rat \<Rightarrow> double" where
  "toDouble x =
     (if x = 0 then Finite 0
      else
        let e = max (floorLog2 \<bar>x\<bar>) (- 1022);
            ulp = pow2 (e - 52);
            r = of_int (roundTiesToEven (x / ulp)) * ulp
        in if floorLog2 \<bar>r\<bar> \<ge> 1024
           then (if x > 0 then PlusInfinity else MinusInfinity)
           else Finite r)"

fun divide_double :: "double \<Rightarrow> double \<Rightarrow> double" where
  "divide_double NotANumber y = NotANumber"
| "divide_double x NotANumber = NotANumber"
| "divide_double (Finite a) (Finite b) =
     (if b = 0 then (if a = 0 then NotANumber
                     else if a > 0 then PlusInfinity else MinusInfinity)
      else toDouble (a / b))"
| "divide_double (Finite a) y = Finite 0"
| "divide_double PlusInfinity (Finite b) = (if b \<ge> 0 then PlusInfinity else MinusInfinity)"
| "divide_double MinusInfinity (Finite b) = (if b \<ge> 0 then MinusInfinity else PlusInfinity)"
| "divide_double x y = NotANumber"

subsection \<open>The values of \<^verbatim>\<open>wpm\<close>\<close>

text \<open>
  \<^verbatim>\<open>Math.round\<close> yields an integer, a tie going up (\<open>\<lfloor>x + 1/2\<rfloor>\<close>, taken exactly), and
  returns an infinity or \<^verbatim>\<open>NaN\<close> unchanged. Comparisons with \<^verbatim>\<open>NaN\<close> are false.
\<close>

datatype number = Fin int | Infinity | NegInfinity | NaN

fun number_ge :: "number \<Rightarrow> int \<Rightarrow> bool" where
  "number_ge (Fin w) t = (w \<ge> t)"
| "number_ge Infinity t = True"
| "number_ge NegInfinity t = False"
| "number_ge NaN t = False"

fun number_lt :: "number \<Rightarrow> int \<Rightarrow> bool" where
  "number_lt (Fin w) t = (w < t)"
| "number_lt Infinity t = False"
| "number_lt NegInfinity t = True"
| "number_lt NaN t = False"

fun Math_round :: "double \<Rightarrow> number" where
  "Math_round (Finite x) = Fin \<lfloor>x + 1 / 2\<rfloor>"
| "Math_round PlusInfinity = Infinity"
| "Math_round MinusInfinity = NegInfinity"
| "Math_round NotANumber = NaN"

text \<open>
  \<^verbatim>\<open>timeElapsed = (Date.now() - (state.word.startTime ?? 0)) / 60_000\<close> and
  \<^verbatim>\<open>wpm = Math.round(appendBuffer.length / 5 / timeElapsed)\<close>, each division rounded to
  binary64. With no time elapsed the divisor is zero and the quotient is \<^verbatim>\<open>Infinity\<close>
  (positive dividend) or \<^verbatim>\<open>NaN\<close> (zero dividend).
\<close>

definition wpmOf :: "nat \<Rightarrow> int \<Rightarrow> int option \<Rightarrow> number" where
  "wpmOf len now startTime =
     (let elapsedMs = now - (case startTime of None \<Rightarrow> 0 | Some t \<Rightarrow> t) in
      if elapsedMs = 0 then (if len = 0 then NaN else Infinity)
      else
        let timeElapsed = divide_double (toDouble (of_int elapsedMs)) (Finite 60000) in
        Math_round
          (divide_double (divide_double (toDouble (of_nat len)) (Finite 5)) timeElapsed))"

subsection \<open>Data\<close>

datatype error = TypeError

record Character =
  character :: jsstring
  correct :: "bool option"

record Word =
  characters :: "Character list"
  startTime :: "int option"
  endTime :: "int option"
  wpm :: "number option"
  hitTargetWPM :: bool
  match :: bool
  streak :: nat

record State =
  word :: Word
  level :: nat
  highestLevel :: "nat option"
  buffer :: jsstring
  targetWPM :: int
  targetStreak :: nat
  finished :: bool
  lastSave :: "int option"
  showInstructions :: bool
  lastWPM :: "number option"
  darkMode :: bool
  customWordlist :: "jsstring list option"
  muted :: bool
  successSounds :: "jsstring list"
  errorSounds :: "jsstring list"
  speedErrorSounds :: "jsstring list"
  clickSounds :: "jsstring list"

datatype Action =
    APPEND_BUFFER jsstring
  | JUMP_BACKWARDS
  | JUMP_END
  | JUMP_FORWARDS
  | JUMP_START
  | LOAD_STATE State
  | RESET_STATE
  | SAVE_STATE
  | SET_CHARACTERS "Character list"
  | SET_TARGET_STREAK nat
  | SET_TARGET_WPM int
  | SET_WORD Word
  | SET_WORDLIST "jsstring list"
  | TOGGLE_DARK_MODE
  | TOGGLE_INSTRUCTIONS
  | TOGGLE_MUTED

subsection \<open>The word factory\<close>

text \<open>
  \<^verbatim>\<open>toLowerCase\<close> follows the Unicode case mapping. The table here holds the code units
  below 256 and U+0130: the letters A to Z and the Latin-1 capitals (192 to 222 without
  the multiplication sign 215) move up by 32; U+0130, the capital I with a dot above,
  becomes the two code units U+0069 U+0307; the other code units below 256 stay. The
  mappings of the capitals of other scripts are not in the table: such a code unit is
  left as it is, so the definition is that of the program on strings over the code
  units below 256 and U+0130 only.
\<close>

definition toLowerCase_unit :: "codeunit \<Rightarrow> jsstring" where
  "toLowerCase_unit u =
     (if (65 \<le> u \<and> u \<le> 90) \<or> (192 \<le> u \<and> u \<le> 222 \<and> u \<noteq> 215) then [u + 32]
      else if u = 304 then [105, 775]
      else [u])"

definition toLowerCase :: "jsstring \<Rightarrow> jsstring" where
  "toLowerCase s = concat (map toLowerCase_unit s)"

text \<open>
  \<^verbatim>\<open>`${list[index]} `\<close>: an index past the end reads \<^verbatim>\<open>undefined\<close>, which the template
  literal prints as the word "undefined"; nothing is raised.
\<close>

definition template :: "jsstring list \<Rightarrow> nat \<Rightarrow> jsstring" where
  "template list index =
     (if index < length list then list ! index else utf16 ''undefined'') @ utf16 '' ''"

definition createWord :: "jsstring list \<Rightarrow> nat \<Rightarrow> Word" where
  "createWord list index =
     \<lparr> characters =
         map (\<lambda>c. \<lparr> character = [c], correct = None \<rparr>) (toLowerCase (template list index)),
       startTime = None,
       endTime = None,
       wpm = None,
       hitTargetWPM = False,
       match = False,
       streak = 0 \<rparr>"

definition defaultLevel :: nat where "defaultLevel = 0"
definition defaultTargetWPM :: int where "defaultTargetWPM = 90"
definition defaultTargetStreak :: nat where "defaultTargetStreak = 5"

definition initialState :: "jsstring list \<Rightarrow> State" where
  "initialState en1000 =
     \<lparr> word = createWord en1000 defaultLevel,
       level = defaultLevel,
       highestLevel = Some defaultLevel,
       buffer = [],
       targetWPM = defaultTargetWPM,
       targetStreak = defaultTargetStreak,
       finished = False,
       lastSave = None,
       showInstructions = True,
       lastWPM = None,
       darkMode = True,
       customWordlist = None,
       muted = True,
       successSounds = [utf16 ''success''],
       errorSounds = [utf16 ''error''],
       speedErrorSounds = [utf16 ''speed-error''],
       clickSounds = [utf16 ''click''] \<rparr>"

subsection \<open>The typing evaluator\<close>

text \<open>
  \<^verbatim>\<open>appendBuffer.split('').every((character, index) => character ===
  state.word.characters[index].character)\<close>: \<^verbatim>\<open>every\<close> stops at the first position that
  differs. At a position past the end of \<^verbatim>\<open>characters\<close> the element is \<^verbatim>\<open>undefined\<close> and
  reading its \<^verbatim>\<open>character\<close> raises a TypeError.
\<close>

fun every_character :: "jsstring \<Rightarrow> Character list \<Rightarrow> error + bool" where
  "every_character [] cs = Inr True"
| "every_character (b # bs) [] = Inl TypeError"
| "every_character (b # bs) (c # cs) =
     (if [b] = character c then every_character bs cs else Inr False)"

text \<open>
  \<^verbatim>\<open>characters.map((character, index) => ({...character, correct: buf[index] === undefined
  ? undefined : character.character === buf[index]}))\<close>
\<close>

definition markCharacters :: "jsstring \<Rightarrow> Character list \<Rightarrow> Character list" where
  "markCharacters buf cs =
     map (\<lambda>(index, ch).
            ch\<lparr> correct := (if index < length buf
                            then Some (character ch = [buf ! index]) else None) \<rparr>)
         (enumerate 0 cs)"

definition activeWordlist :: "jsstring list \<Rightarrow> State \<Rightarrow> jsstring list" where
  "activeWordlist en1000 state =
     (case customWordlist state of None \<Rightarrow> en1000 | Some l \<Rightarrow> l)"

subsection \<open>The reducer\<close>

text \<open>
  \<open>appendBufferStep\<close> is the \<^verbatim>\<open>APPEND_BUFFER\<close> case of the reducer (lines 213 to 386 of
  \<^verbatim>\<open>state.ts\<close>), set apart for its size; the branches come in the order of the source.
\<close>

definition appendBufferStep :: "jsstring list \<Rightarrow> int \<Rightarrow> State \<Rightarrow> jsstring \<Rightarrow> error + State" where
  "appendBufferStep en1000 now state payload =
    (if showInstructions state then Inr state
     else if finished state then Inr state
     else if length (buffer state) = 0 \<and> payload = utf16 '' '' then Inr state
     else if streak (word state) \<ge> targetStreak state then Inr state
     else
       let appendBuffer = buffer state @ payload in
       case every_character appendBuffer (characters (word state)) of
         Inl e \<Rightarrow> Inl e
       | Inr matched \<Rightarrow>
          let wpm' = wpmOf (length appendBuffer) now (startTime (word state));
              hit = number_ge wpm' (targetWPM state)
          in
          if \<not> matched then
            Inr (state\<lparr>
              word := (word state)\<lparr>
                endTime := Some now,
                streak := 0,
                characters := markCharacters appendBuffer (characters (word state)),
                wpm := Some (Fin 0),
                match := False,
                hitTargetWPM := False \<rparr>,
              buffer := [] \<rparr>)
          else if endTime (word state) = None
                  \<and> length appendBuffer \<ge> length (characters (word state)) then
            (let streak' = (if hit then streak (word state) + 1 else 0) in
             if streak' \<ge> targetStreak state then
               (if level state + 1 = length (activeWordlist en1000 state) then
                  Inr (state\<lparr> finished := True, lastSave := Some now \<rparr>)
                else
                  Inr (state\<lparr>
                    level := level state + 1,
                    highestLevel :=
                      Some (max (case highestLevel state of None \<Rightarrow> 0 | Some h \<Rightarrow> h)
                                (level state + 1)),
                    word := createWord (activeWordlist en1000 state) (level state + 1),
                    buffer := [],
                    lastSave := Some now \<rparr>))
             else
               Inr (state\<lparr>
                 buffer := [],
                 word := (word state)\<lparr>
                   endTime := Some now,
                   streak := streak',
                   characters := markCharacters appendBuffer (characters (word state)),
                   wpm := Some wpm',
                   match := matched,
                   hitTargetWPM := hit \<rparr>,
                 lastWPM := Some wpm' \<rparr>))
          else if endTime (word state) = None
                  \<and> length appendBuffer < length (characters (word state)) then
            Inr (state\<lparr>
              buffer := appendBuffer,
              word := (word state)\<lparr>
                startTime :=
                  Some (case startTime (word state) of None \<Rightarrow> now | Some t \<Rightarrow> t),
                characters := markCharacters appendBuffer (characters (word state)) \<rparr> \<rparr>)
          else
            (case wpm (word state) of
              None \<Rightarrow> Inr state
            | Some w \<Rightarrow>
               let nextBuffer = payload;
                   repeatWord = createWord (activeWordlist en1000 state) (level state)
               in
               if \<not> match (word state) \<or> number_lt w (targetWPM state) then
                 Inr (state\<lparr>
                   word := repeatWord\<lparr>
                     startTime := Some now,
                     characters := markCharacters nextBuffer (characters repeatWord) \<rparr>,
                   buffer := nextBuffer \<rparr>)
               else if streak (word state) < targetStreak state then
                 Inr (state\<lparr>
                   word := repeatWord\<lparr>
                     startTime := Some now,
                     characters := markCharacters nextBuffer (characters repeatWord),
                     streak := streak (word state) \<rparr>,
                   buffer := nextBuffer \<rparr>)
               else Inr state))"

fun reducer :: "jsstring list \<Rightarrow> int \<Rightarrow> State \<Rightarrow> Action \<Rightarrow> error + State" where
  "reducer en1000 now state SAVE_STATE = Inr (state\<lparr> lastSave := Some now \<rparr>)"
| "reducer en1000 now state (LOAD_STATE payload) = Inr payload"
| "reducer en1000 now state (SET_TARGET_STREAK payload) =
     Inr (state\<lparr> targetStreak := payload, lastSave := Some now \<rparr>)"
| "reducer en1000 now state (SET_TARGET_WPM payload) =
     Inr (state\<lparr> targetWPM := payload, lastSave := Some now \<rparr>)"
| "reducer en1000 now state (SET_WORD payload) = Inr (state\<lparr> word := payload \<rparr>)"
| "reducer en1000 now state (SET_CHARACTERS payload) =
     Inr (state\<lparr> word := (word state)\<lparr> characters := payload \<rparr> \<rparr>)"
| "reducer en1000 now state (SET_WORDLIST payload) =
     Inr ((initialState en1000)\<lparr>
       level := 0,
       highestLevel := Some 0,
       word := createWord payload 0,
       targetWPM := targetWPM state,
       targetStreak := targetStreak state,
       darkMode := darkMode state,
       customWordlist := Some payload,
       lastSave := Some now,
       showInstructions := False \<rparr>)"
| "reducer en1000 now state (APPEND_BUFFER payload) =
     appendBufferStep en1000 now state payload"
| "reducer en1000 now state JUMP_FORWARDS =
     (if showInstructions state then Inr state
      else case highestLevel state of
        None \<Rightarrow> Inr state
      | Some h \<Rightarrow>
         let nextLevel = min h (level state + 1) in
         Inr (state\<lparr>
           level := nextLevel,
           word := createWord (activeWordlist en1000 state) nextLevel,
           buffer := [],
           finished := False,
           lastSave := Some now \<rparr>))"
| "reducer en1000 now state JUMP_BACKWARDS =
     (if showInstructions state then Inr state
      else case highestLevel state of
        None \<Rightarrow> Inr state
      | Some h \<Rightarrow>
         let previousLevel = nat (max 0 (int (level state) - 1)) in
         Inr (state\<lparr>
           level := previousLevel,
           word := createWord (activeWordlist en1000 state) previousLevel,
           buffer := [],
           finished := False,
           lastSave := Some now \<rparr>))"
| "reducer en1000 now state JUMP_START =
     (if showInstructions state then Inr state
      else
        Inr (state\<lparr>
          level := 0,
          word := createWord (activeWordlist en1000 state) 0,
          buffer := [],
          finished := False,
          lastSave := Some now \<rparr>))"
| "reducer en1000 now state JUMP_END =
     (if showInstructions state then Inr state
      else case highestLevel state of
        None \<Rightarrow> Inr state
      | Some h \<Rightarrow>
         Inr (state\<lparr>
           level := h,
           word := createWord (activeWordlist en1000 state) h,
           buffer := [],
           finished := False,
           lastSave := Some now \<rparr>))"
| "reducer en1000 now state RESET_STATE =
     Inr ((initialState en1000)\<lparr> lastSave := Some now \<rparr>)"
| "reducer en1000 now state TOGGLE_INSTRUCTIONS =
     Inr (state\<lparr> showInstructions := \<not> showInstructions state \<rparr>)"
| "reducer en1000 now state TOGGLE_DARK_MODE =
     Inr (state\<lparr> darkMode := \<not> darkMode state, lastSave := Some now \<rparr>)"
| "reducer en1000 now state TOGGLE_MUTED =
     Inr (state\<lparr> muted := \<not> muted state, lastSave := Some now \<rparr>)"

subsection \<open>Sequences of actions\<close>

text \<open>
  The reducer is handed to React's \<^verbatim>\<open>useReducer\<close>: the actions are applied one at a
  time, each to the state that the one before returned, each at its own reading of
  the clock. An action that raises ends the sequence.
\<close>

fun dispatchAll :: "jsstring list \<Rightarrow> State \<Rightarrow> (int \<times> Action) list \<Rightarrow> error + State" where
  "dispatchAll en1000 state [] = Inr state"
| "dispatchAll en1000 state ((now, action) # rest) =
     (case reducer en1000 now state action of
        Inl e \<Rightarrow> Inl e
      | Inr state' \<Rightarrow> dispatchAll en1000 state' rest)"

subsection \<open>Example sessions\<close>

text \<open>
  States used to evaluate the reducer on concrete inputs, over an empty default word
  list and a custom word list. Each is written out, and each is reached from
  \<open>initialState\<close> by the sequence of actions given with it (lemmas \<open>reach_...\<close> below).
\<close>

definition exampleWordlist :: "jsstring list" where
  "exampleWordlist = [utf16 ''hi'', utf16 ''yo'']"

text \<open>After \<^verbatim>\<open>SET_WORDLIST\<close> at time 0: level 0, the word "hi ", target 90 wpm, target streak 5.\<close>

definition freshSession :: State where
  "freshSession =
     (initialState [])\<lparr>
       word := createWord exampleWordlist 0,
       customWordlist := Some exampleWordlist,
       lastSave := Some 0,
       showInstructions := False \<rparr>"

text \<open>Then "h" typed at 1000 and "i" at 1100, the closing space still to come.\<close>

definition closingKeyPending :: State where
  "closingKeyPending =
     freshSession\<lparr>
       buffer := utf16 ''hi'',
       word := (createWord exampleWordlist 0)\<lparr>
         startTime := Some 1000,
         characters := markCharacters (utf16 ''hi'') (characters (createWord exampleWordlist 0)) \<rparr> \<rparr>"

text \<open>Then the space at 1200: "hi " in 200 ms, 180 wpm, streak 1, waiting for the next key.\<close>

definition onceCompleted :: State where
  "onceCompleted =
     freshSession\<lparr>
       word := (createWord exampleWordlist 0)\<lparr>
         startTime := Some 1000,
         endTime := Some 1200,
         characters := markCharacters (utf16 ''hi '') (characters (createWord exampleWordlist 0)),
         wpm := Some (Fin 180),
         hitTargetWPM := True,
         match := True,
         streak := 1 \<rparr>,
       lastWPM := Some (Fin 180) \<rparr>"

text \<open>
  "h" and "i" both typed within the millisecond 1000, the closing space still to come.
  The state is that of \<open>closingKeyPending\<close>: only the time of the first key is kept.
\<close>

definition sameMillisecond :: State where
  "sameMillisecond = closingKeyPending"

text \<open>
  With \<^verbatim>\<open>SET_TARGET_STREAK 1\<close> at time 1 before the typing: "hi" typed, the closing space
  still to come; and the state after the space at 1200, on level 1.
\<close>

definition lastKeyPending :: State where
  "lastKeyPending = closingKeyPending\<lparr> targetStreak := 1, lastSave := Some 1 \<rparr>"

definition secondLevel :: State where
  "secondLevel =
     lastKeyPending\<lparr>
       level := 1,
       highestLevel := Some 1,
       word := createWord exampleWordlist 1,
       buffer := [],
       lastSave := Some 1200 \<rparr>"

text \<open>Then "y" at 2000, "o" at 2100 and the space at 2200: the last word, finished.\<close>

definition finishedSession :: State where
  "finishedSession =
     secondLevel\<lparr>
       buffer := utf16 ''yo'',
       word := (createWord exampleWordlist 1)\<lparr>
         startTime := Some 2000,
         characters := markCharacters (utf16 ''yo'') (characters (createWord exampleWordlist 1)) \<rparr>,
       finished := True,
       lastSave := Some 2200 \<rparr>"

text \<open>
  A one-word list with target streak 2: "hi " typed once in 200 ms (streak 1), then
  "h" at 2000 and "i" at 2100 of the replay, the closing space still to come.
\<close>

definition lastWordPending :: State where
  "lastWordPending =
     (initialState [])\<lparr>
       word := (createWord [utf16 ''hi''] 0)\<lparr>
         startTime := Some 2000,
         characters := markCharacters (utf16 ''hi'') (characters (createWord [utf16 ''hi''] 0)),
         streak := 1 \<rparr>,
       buffer := utf16 ''hi'',
       targetStreak := 2,
       lastSave := Some 1,
       showInstructions := False,
       lastWPM := Some (Fin 180),
       customWordlist := Some [utf16 ''hi''] \<rparr>"

text \<open>A completed word whose \<^verbatim>\<open>wpm\<close> is \<^verbatim>\<open>NaN\<close>, installed by \<^verbatim>\<open>SET_WORD\<close>.\<close>

definition nanWord :: Word where
  "nanWord =
     \<lparr> characters = characters (createWord exampleWordlist 0),
       startTime = Some 0,
       endTime = Some 0,
       wpm = Some NaN,
       hitTargetWPM = False,
       match = True,
       streak = 2 \<rparr>"

definition nanSession :: State where
  "nanSession = freshSession\<lparr> word := nanWord \<rparr>"

section \<open>Properties\<close>

subsection \<open>Arithmetic\<close>

text \<open>
  Two values of \<open>wpmOf\<close>. Three code units in 200 ms: \<open>3 / 5\<close> and \<open>200 / 60000\<close> are both
  rounded, and their quotient is the binary64 value just below 180, which rounds to 180.
  Three code units in 192 ms: the exact quotient is 187.5, the binary64 quotient is just
  below it, and the result is 187, not 188.
\<close>

lemma wpmOf_200ms: "wpmOf 3 1200 (Some 1000) = Fin 180"
  by code_simp

lemma wpmOf_192ms: "wpmOf 3 1192 (Some 1000) = Fin 187"
  by code_simp

subsection \<open>The example sessions are reached\<close>

lemma reach_freshSession:
  "dispatchAll [] (initialState []) [(0, SET_WORDLIST exampleWordlist)] = Inr freshSession"
  by code_simp

lemma reach_closingKeyPending:
  "dispatchAll [] freshSession
     [(1000, APPEND_BUFFER (utf16 ''h'')), (1100, APPEND_BUFFER (utf16 ''i''))]
   = Inr closingKeyPending"
  by code_simp


lemma reach_sameMillisecond:
  "dispatchAll [] freshSession
     [(1000, APPEND_BUFFER (utf16 ''h'')), (1000, APPEND_BUFFER (utf16 ''i''))]
   = Inr sameMillisecond"
  by code_simp

lemma reach_lastKeyPending:
  "dispatchAll [] freshSession
     [(1, SET_TARGET_STREAK 1),
      (1000, APPEND_BUFFER (utf16 ''h'')), (1100, APPEND_BUFFER (utf16 ''i''))]
   = Inr lastKeyPending"
  by code_simp

lemma reach_secondLevel:
  "reducer [] 1200 lastKeyPending (APPEND_BUFFER (utf16 '' '')) = Inr secondLevel"
  by code_simp

lemma reach_finishedSession:
  "dispatchAll [] secondLevel
     [(2000, APPEND_BUFFER (utf16 ''y'')), (2100, APPEND_BUFFER (utf16 ''o'')),
      (2200, APPEND_BUFFER (utf16 '' ''))]
   = Inr finishedSession"
  by code_simp

lemma reach_lastWordPending:
  "dispatchAll [] (initialState [])
     [(0, SET_WORDLIST [utf16 ''hi'']), (1, SET_TARGET_STREAK 2),
      (1000, APPEND_BUFFER (utf16 ''h'')), (1100, APPEND_BUFFER (utf16 ''i'')),
      (1200, APPEND_BUFFER (utf16 '' '')),
      (2000, APPEND_BUFFER (utf16 ''h'')), (2100, APPEND_BUFFER (utf16 ''i''))]
   = Inr lastWordPending"
  by code_simp

lemma reach_nanSession:
  "reducer [] 1 freshSession (SET_WORD nanWord) = Inr nanSession"
  by code_simp

subsection \<open>The word factory\<close>










subsection \<open>Settings and navigation\<close>

text \<open>
  C8. Dispatching \<^verbatim>\<open>TOGGLE_MUTED\<close> twice in a row gives back the state it started from
  with only \<open>lastSave\<close> changed (to the time of the second dispatch): \<open>muted\<close> has its
  first value and every other field is as it was.
\<close>

theorem toggle_muted_twice:
  "dispatchAll en state [(now1, TOGGLE_MUTED), (now2, TOGGLE_MUTED)]
     = Inr (state\<lparr> lastSave := Some now2 \<rparr>)"
  by simp

text \<open>
  C10. \<^verbatim>\<open>SET_WORDLIST\<close> returns a state whose \<open>muted\<close> is that of the initial state, true,
  whatever it was before, while \<open>targetWPM\<close>, \<open>targetStreak\<close> and \<open>darkMode\<close> are those of
  the state before.
\<close>

theorem set_wordlist_muted:
  "\<exists>state'. reducer en now state (SET_WORDLIST payload) = Inr state'
     \<and> muted state' = muted (initialState en)
     \<and> muted state' = True
     \<and> targetWPM state' = targetWPM state
     \<and> targetStreak state' = targetStreak state
     \<and> darkMode state' = darkMode state"
  by (simp add: initialState_def)

text \<open>
  C7. With the instructions hidden and \<open>highestLevel\<close> defined as \<open>h\<close>, \<^verbatim>\<open>JUMP_FORWARDS\<close>
  moves to level \<open>min h (level + 1)\<close>, which is at most \<open>h\<close>, and \<^verbatim>\<open>JUMP_BACKWARDS\<close> to level
  \<open>max 0 (level - 1)\<close>, which is at least 0. Both make a new word at that level, empty the
  buffer, set \<open>finished\<close> to false and stamp \<open>lastSave\<close>; nothing else changes.
\<close>

theorem jump_forwards_backwards:
  assumes "\<not> showInstructions state" and "highestLevel state = Some h"
  shows "reducer en now state JUMP_FORWARDS =
           Inr (state\<lparr> level := min h (level state + 1),
                        word := createWord (activeWordlist en state) (min h (level state + 1)),
                        buffer := [], finished := False, lastSave := Some now \<rparr>)
       \<and> min h (level state + 1) \<le> h
       \<and> reducer en now state JUMP_BACKWARDS =
           Inr (state\<lparr> level := nat (max 0 (int (level state) - 1)),
                        word := createWord (activeWordlist en state)
                                  (nat (max 0 (int (level state) - 1))),
                        buffer := [], finished := False, lastSave := Some now \<rparr>)
       \<and> 0 \<le> max 0 (int (level state) - 1)"
  using assms by (simp add: Let_def)

theorem jump_forwards_backwards_witness:
  "\<not> showInstructions secondLevel \<and> highestLevel secondLevel = Some 1
   \<and> level secondLevel = 1
   \<and> reducer [] 3000 secondLevel JUMP_FORWARDS =
       Inr (secondLevel\<lparr> level := 1, word := createWord exampleWordlist 1,
                         buffer := [], finished := False, lastSave := Some 3000 \<rparr>)
   \<and> reducer [] 3000 secondLevel JUMP_BACKWARDS =
       Inr (secondLevel\<lparr> level := 0, word := createWord exampleWordlist 0,
                         buffer := [], finished := False, lastSave := Some 3000 \<rparr>)"
proof -
  have h1: "\<not> showInstructions secondLevel" by code_simp
  have h2: "highestLevel secondLevel = Some 1" by code_simp
  have l: "level secondLevel = 1" by code_simp
  have a: "activeWordlist [] secondLevel = exampleWordlist" by code_simp
  show ?thesis
    using h1 h2 l jump_forwards_backwards [where en = "[]" and now = 3000, OF h1 h2]
    by (simp add: a)
qed

subsection \<open>Typing: mismatch, completion, replay\<close>

lemma finished_dispatchAll:
  "finished t \<Longrightarrow> dispatchAll en t (map (\<lambda>(n, p). (n, APPEND_BUFFER p)) ps) = Inr t"
  by (induction ps) (auto simp: appendBufferStep_def)

text \<open>
  C1 as stated fails. A space typed on an empty buffer is returned from before the
  buffer is compared with the word: on the fresh session the state comes back as it
  was, \<open>endTime\<close> and \<open>wpm\<close> still undefined; after one completed word (streak 1) it comes
  back with streak 1, \<open>match\<close> and \<open>hitTargetWPM\<close> true and \<open>wpm\<close> 180. In both states the
  instructions are hidden, \<open>finished\<close> is false, the streak is below the target, and the
  buffer with the space appended does not match the word.
\<close>

theorem mismatch_space_counterexample:
  "\<not> showInstructions freshSession \<and> \<not> finished freshSession
   \<and> streak (word freshSession) < targetStreak freshSession
   \<and> every_character (buffer freshSession @ utf16 '' '') (characters (word freshSession))
       = Inr False
   \<and> reducer [] 1000 freshSession (APPEND_BUFFER (utf16 '' '')) = Inr freshSession
   \<and> endTime (word freshSession) = None
   \<and> wpm (word freshSession) = None
   \<and> \<not> showInstructions onceCompleted \<and> \<not> finished onceCompleted
   \<and> streak (word onceCompleted) < targetStreak onceCompleted
   \<and> every_character (buffer onceCompleted @ utf16 '' '') (characters (word onceCompleted))
       = Inr False
   \<and> reducer [] 1300 onceCompleted (APPEND_BUFFER (utf16 '' '')) = Inr onceCompleted
   \<and> streak (word onceCompleted) = 1
   \<and> wpm (word onceCompleted) = Some (Fin 180)
   \<and> match (word onceCompleted)
   \<and> hitTargetWPM (word onceCompleted)"
  by code_simp

text \<open>
  C1, amended. In a state with the instructions hidden, \<open>finished\<close> false and the streak
  below the target, take an \<^verbatim>\<open>APPEND_BUFFER\<close> whose new buffer differs from the word at
  some position (\<^verbatim>\<open>every\<close> returns false). If it is a space typed on an empty buffer,
  the state is returned unchanged. Otherwise the state returned has an empty buffer,
  streak 0, \<open>endTime\<close> the current time, \<open>wpm\<close> 0, \<open>match\<close> and \<open>hitTargetWPM\<close> false and
  the level unchanged, whatever the streak was.
\<close>

theorem mismatch_resets:
  assumes "\<not> showInstructions state" and "\<not> finished state"
    and "streak (word state) < targetStreak state"
    and "every_character (buffer state @ payload) (characters (word state)) = Inr False"
  shows "if buffer state = [] \<and> payload = utf16 '' ''
         then reducer en now state (APPEND_BUFFER payload) = Inr state
         else (\<exists>state'. reducer en now state (APPEND_BUFFER payload) = Inr state'
                \<and> buffer state' = []
                \<and> streak (word state') = 0
                \<and> endTime (word state') = Some now
                \<and> wpm (word state') = Some (Fin 0)
                \<and> \<not> match (word state')
                \<and> \<not> hitTargetWPM (word state')
                \<and> level state' = level state)"
  using assms by (auto simp: appendBufferStep_def Let_def)

theorem mismatch_resets_witness:
  "\<not> showInstructions onceCompleted \<and> \<not> finished onceCompleted
   \<and> streak (word onceCompleted) = 1 \<and> targetStreak onceCompleted = 5
   \<and> buffer onceCompleted = []
   \<and> every_character (buffer onceCompleted @ utf16 ''x'') (characters (word onceCompleted))
       = Inr False
   \<and> (\<exists>state'. reducer [] 1300 onceCompleted (APPEND_BUFFER (utf16 ''x'')) = Inr state'
          \<and> buffer state' = []
          \<and> streak (word state') = 0
          \<and> endTime (word state') = Some 1300
          \<and> wpm (word state') = Some (Fin 0)
          \<and> \<not> match (word state')
          \<and> \<not> hitTargetWPM (word state')
          \<and> level state' = level onceCompleted)
   \<and> every_character (buffer onceCompleted @ utf16 '' '') (characters (word onceCompleted))
       = Inr False
   \<and> reducer [] 1300 onceCompleted (APPEND_BUFFER (utf16 '' '')) = Inr onceCompleted"
proof -
  have h1: "\<not> showInstructions onceCompleted" by code_simp
  have h2: "\<not> finished onceCompleted" by code_simp
  have s: "streak (word onceCompleted) = 1" by code_simp
  have t: "targetStreak onceCompleted = 5" by code_simp
  have h3: "streak (word onceCompleted) < targetStreak onceCompleted" by (simp add: s t)
  have b: "buffer onceCompleted = []" by code_simp
  have h4: "every_character (buffer onceCompleted @ utf16 ''x'') (characters (word onceCompleted))
              = Inr False" by code_simp
  have h5: "every_character (buffer onceCompleted @ utf16 '' '') (characters (word onceCompleted))
              = Inr False" by code_simp
  have d: "utf16 ''x'' \<noteq> utf16 '' ''" by code_simp
  note key = mismatch_resets [where en = "[]" and now = 1300, OF h1 h2 h3 h4]
  note space = mismatch_resets [where en = "[]" and now = 1300, OF h1 h2 h3 h5]
  show ?thesis
    using h1 h2 s t b h4 h5 d key space by simp
qed

text \<open>
  C2. When the key that completes the word (all characters matching, \<open>endTime\<close>
  undefined, the buffer reaching the length of the word) brings the streak to the
  target or beyond: if \<open>level + 1\<close> is the length of the active word list, the state
  returned is the old one with \<open>finished\<close> true (and \<open>lastSave\<close> stamped); otherwise it
  is the old one with the level one higher, \<open>highestLevel\<close> the greater of the old
  \<open>highestLevel\<close> (0 when undefined) and the new level, a word made by \<open>createWord\<close> at
  the new level, an empty buffer and \<open>lastSave\<close> the current time. And from any state
  with \<open>finished\<close> true, any sequence of \<^verbatim>\<open>APPEND_BUFFER\<close> actions returns that state
  unchanged.
\<close>

theorem level_advance_decision:
  assumes "\<not> showInstructions state" and "\<not> finished state"
    and "\<not> (buffer state = [] \<and> payload = utf16 '' '')"
    and "streak (word state) < targetStreak state"
    and "every_character (buffer state @ payload) (characters (word state)) = Inr True"
    and "endTime (word state) = None"
    and "length (buffer state @ payload) \<ge> length (characters (word state))"
    and "(if number_ge (wpmOf (length (buffer state @ payload)) now (startTime (word state)))
                       (targetWPM state)
          then streak (word state) + 1 else 0) \<ge> targetStreak state"
  shows "reducer en now state (APPEND_BUFFER payload) =
          (if level state + 1 = length (activeWordlist en state)
           then Inr (state\<lparr> finished := True, lastSave := Some now \<rparr>)
           else Inr (state\<lparr>
                  level := level state + 1,
                  highestLevel :=
                    Some (max (case highestLevel state of None \<Rightarrow> 0 | Some h \<Rightarrow> h)
                              (level state + 1)),
                  word := createWord (activeWordlist en state) (level state + 1),
                  buffer := [],
                  lastSave := Some now \<rparr>))
       \<and> (finished other \<longrightarrow>
            dispatchAll en other (map (\<lambda>(n, p). (n, APPEND_BUFFER p)) later) = Inr other)"
  using assms by (auto simp: appendBufferStep_def Let_def finished_dispatchAll split: if_splits)

theorem level_advance_decision_witness:
  "\<not> showInstructions lastKeyPending \<and> \<not> finished lastKeyPending
   \<and> buffer lastKeyPending = utf16 ''hi''
   \<and> streak (word lastKeyPending) = 0 \<and> targetStreak lastKeyPending = 1
   \<and> every_character (buffer lastKeyPending @ utf16 '' '') (characters (word lastKeyPending))
       = Inr True
   \<and> endTime (word lastKeyPending) = None
   \<and> length (characters (word lastKeyPending)) = 3
   \<and> wpmOf 3 1200 (startTime (word lastKeyPending)) = Fin 180
   \<and> targetWPM lastKeyPending = 90
   \<and> level lastKeyPending = 0 \<and> length (activeWordlist [] lastKeyPending) = 2
   \<and> reducer [] 1200 lastKeyPending (APPEND_BUFFER (utf16 '' '')) =
       Inr (lastKeyPending\<lparr> level := 1, highestLevel := Some 1,
              word := createWord exampleWordlist 1, buffer := [], lastSave := Some 1200 \<rparr>)
   \<and> finished finishedSession
   \<and> dispatchAll [] finishedSession
        [(2300, APPEND_BUFFER (utf16 ''y'')), (2400, APPEND_BUFFER (utf16 ''o''))]
       = Inr finishedSession"
proof -
  have h1: "\<not> showInstructions lastKeyPending" by code_simp
  have h2: "\<not> finished lastKeyPending" by code_simp
  have b: "buffer lastKeyPending = utf16 ''hi''" by code_simp
  have h3: "\<not> (buffer lastKeyPending = [] \<and> utf16 '' '' = utf16 '' '')" by code_simp
  have s: "streak (word lastKeyPending) = 0" by code_simp
  have t: "targetStreak lastKeyPending = 1" by code_simp
  have h4: "streak (word lastKeyPending) < targetStreak lastKeyPending" by (simp add: s t)
  have h5: "every_character (buffer lastKeyPending @ utf16 '' '') (characters (word lastKeyPending))
              = Inr True" by code_simp
  have h6: "endTime (word lastKeyPending) = None" by code_simp
  have c: "length (characters (word lastKeyPending)) = 3" by code_simp
  have h7: "length (buffer lastKeyPending @ utf16 '' '')
              \<ge> length (characters (word lastKeyPending))" by code_simp
  have st: "startTime (word lastKeyPending) = Some 1000" by code_simp
  have w: "wpmOf 3 1200 (startTime (word lastKeyPending)) = Fin 180"
    by (simp only: st wpmOf_200ms)
  have g: "targetWPM lastKeyPending = 90" by code_simp
  have n3: "length (buffer lastKeyPending @ utf16 '' '') = 3" by code_simp
  have h8: "(if number_ge (wpmOf (length (buffer lastKeyPending @ utf16 '' '')) 1200
                              (startTime (word lastKeyPending)))
                          (targetWPM lastKeyPending)
             then streak (word lastKeyPending) + 1 else 0) \<ge> targetStreak lastKeyPending"
    by (simp only: n3 w g s t) simp
  have l: "level lastKeyPending = 0" by code_simp
  have a: "activeWordlist [] lastKeyPending = exampleWordlist" by code_simp
  have n: "length exampleWordlist = 2" by code_simp
  have hl: "highestLevel lastKeyPending = Some 0" by code_simp
  have f: "finished finishedSession" by code_simp
  note inst = level_advance_decision
    [where en = "[]" and now = 1200 and other = finishedSession
       and later = "[(2300, utf16 ''y''), (2400, utf16 ''o'')]", OF h1 h2 h3 h4 h5 h6 h7 h8]
  show ?thesis
    using h1 h2 b s t h5 h6 c w g l f inst by (simp add: a n hl)
qed

text \<open>
  C4 as stated fails. After one completed word (streak 1, \<open>endTime\<close> and \<open>wpm\<close> defined,
  \<open>match\<close> true, 180 wpm against a target of 90): a space is ignored, the state comes
  back as it was; a key that is not the first character of the word takes the
  mismatch branch, which keeps the old word, sets its streak to 0 and leaves the buffer
  empty; both are no replay. And a completed word with \<open>match\<close> true whose \<open>wpm\<close> is \<open>NaN\<close>
  is replayed with its streak of 2 carried over, because \<^verbatim>\<open>NaN < targetWPM\<close> is false,
  though \<^verbatim>\<open>NaN >= targetWPM\<close> is false as well.
\<close>

theorem replay_counterexample:
  "\<not> showInstructions onceCompleted \<and> \<not> finished onceCompleted
   \<and> endTime (word onceCompleted) = Some 1200
   \<and> wpm (word onceCompleted) = Some (Fin 180)
   \<and> match (word onceCompleted)
   \<and> targetWPM onceCompleted = 90
   \<and> streak (word onceCompleted) = 1 \<and> targetStreak onceCompleted = 5
   \<and> reducer [] 1300 onceCompleted (APPEND_BUFFER (utf16 '' '')) = Inr onceCompleted
   \<and> reducer [] 1300 onceCompleted (APPEND_BUFFER (utf16 ''x'')) =
       Inr (onceCompleted\<lparr>
         word := (word onceCompleted)\<lparr>
           endTime := Some 1300, streak := 0,
           characters := markCharacters (utf16 ''x'') (characters (word onceCompleted)),
           wpm := Some (Fin 0), match := False, hitTargetWPM := False \<rparr>,
         buffer := [] \<rparr>)
   \<and> startTime (word onceCompleted) = Some 1000
   \<and> \<not> showInstructions nanSession \<and> \<not> finished nanSession
   \<and> endTime (word nanSession) = Some 0
   \<and> wpm (word nanSession) = Some NaN
   \<and> match (word nanSession)
   \<and> \<not> number_ge NaN (targetWPM nanSession)
   \<and> streak (word nanSession) = 2 \<and> targetStreak nanSession = 5
   \<and> reducer [] 1300 nanSession (APPEND_BUFFER (utf16 ''h'')) =
       Inr (nanSession\<lparr>
         word := (createWord exampleWordlist 0)\<lparr>
           startTime := Some 1300,
           characters := markCharacters (utf16 ''h'') (characters (createWord exampleWordlist 0)),
           streak := 2 \<rparr>,
         buffer := utf16 ''h'' \<rparr>)"
  by code_simp

text \<open>
  C4, amended. In a state with the instructions hidden and \<open>finished\<close> false, where
  \<open>endTime\<close> and \<open>wpm\<close> of the word are defined and the streak is below the target, an
  \<^verbatim>\<open>APPEND_BUFFER\<close> does one of three things. A space typed on an empty buffer returns the
  state unchanged. Otherwise, a new buffer that differs from the current word at some
  position (\<^verbatim>\<open>every\<close> returns false) keeps the word, with \<open>endTime\<close> the current time,
  streak 0, \<open>wpm\<close> 0, \<open>match\<close> and \<open>hitTargetWPM\<close> false and its characters marked against
  the new buffer, and empties the buffer. Otherwise, a new buffer that matches the
  current word starts a replay: the word is the one \<open>createWord\<close> makes at the same
  level, with \<open>startTime\<close> the current time and its characters marked against the
  payload; the buffer is the payload; the new word has the streak of the old one if
  the old one had \<open>match\<close> true and a \<open>wpm\<close> that is not below \<open>targetWPM\<close> (the test is
  \<^verbatim>\<open>wpm < targetWPM\<close>), and streak 0 otherwise.
\<close>

theorem replay_after_completion:
  assumes "\<not> showInstructions state" and "\<not> finished state"
    and "endTime (word state) = Some e" and "wpm (word state) = Some w"
    and "streak (word state) < targetStreak state"
  shows "(buffer state = [] \<and> payload = utf16 '' '' \<longrightarrow>
            reducer en now state (APPEND_BUFFER payload) = Inr state)
       \<and> (\<not> (buffer state = [] \<and> payload = utf16 '' '')
            \<and> every_character (buffer state @ payload) (characters (word state)) = Inr False \<longrightarrow>
            reducer en now state (APPEND_BUFFER payload) =
              Inr (state\<lparr>
                word := (word state)\<lparr>
                  endTime := Some now,
                  streak := 0,
                  characters := markCharacters (buffer state @ payload) (characters (word state)),
                  wpm := Some (Fin 0),
                  match := False,
                  hitTargetWPM := False \<rparr>,
                buffer := [] \<rparr>))
       \<and> (\<not> (buffer state = [] \<and> payload = utf16 '' '')
            \<and> every_character (buffer state @ payload) (characters (word state)) = Inr True \<longrightarrow>
            reducer en now state (APPEND_BUFFER payload) =
              Inr (state\<lparr>
                word := (createWord (activeWordlist en state) (level state))\<lparr>
                  startTime := Some now,
                  characters := markCharacters payload
                     (characters (createWord (activeWordlist en state) (level state))),
                  streak := (if match (word state) \<and> \<not> number_lt w (targetWPM state)
                             then streak (word state) else 0) \<rparr>,
                buffer := payload \<rparr>))"
  using assms by (auto simp: appendBufferStep_def Let_def createWord_def)

theorem replay_after_completion_witness:
  "\<not> showInstructions onceCompleted \<and> \<not> finished onceCompleted
   \<and> endTime (word onceCompleted) = Some 1200
   \<and> wpm (word onceCompleted) = Some (Fin 180)
   \<and> streak (word onceCompleted) = 1 \<and> targetStreak onceCompleted = 5
   \<and> buffer onceCompleted = []
   \<and> every_character (buffer onceCompleted @ utf16 ''h'') (characters (word onceCompleted))
       = Inr True
   \<and> reducer [] 2000 onceCompleted (APPEND_BUFFER (utf16 ''h'')) =
       Inr (onceCompleted\<lparr>
         word := (createWord exampleWordlist 0)\<lparr>
           startTime := Some 2000,
           characters := markCharacters (utf16 ''h'') (characters (createWord exampleWordlist 0)),
           streak := 1 \<rparr>,
         buffer := utf16 ''h'' \<rparr>)
   \<and> every_character (buffer onceCompleted @ utf16 ''x'') (characters (word onceCompleted))
       = Inr False
   \<and> reducer [] 2000 onceCompleted (APPEND_BUFFER (utf16 ''x'')) =
       Inr (onceCompleted\<lparr>
         word := (word onceCompleted)\<lparr>
           endTime := Some 2000, streak := 0,
           characters := markCharacters (utf16 ''x'') (characters (word onceCompleted)),
           wpm := Some (Fin 0), match := False, hitTargetWPM := False \<rparr>,
         buffer := [] \<rparr>)
   \<and> reducer [] 2000 onceCompleted (APPEND_BUFFER (utf16 '' '')) = Inr onceCompleted"
proof -
  have h1: "\<not> showInstructions onceCompleted" by code_simp
  have h2: "\<not> finished onceCompleted" by code_simp
  have h3: "endTime (word onceCompleted) = Some 1200" by code_simp
  have h4: "wpm (word onceCompleted) = Some (Fin 180)" by code_simp
  have s: "streak (word onceCompleted) = 1" by code_simp
  have t: "targetStreak onceCompleted = 5" by code_simp
  have h5: "streak (word onceCompleted) < targetStreak onceCompleted" by (simp add: s t)
  have b: "buffer onceCompleted = []" by code_simp
  have dh: "utf16 ''h'' \<noteq> utf16 '' ''" by code_simp
  have dx: "utf16 ''x'' \<noteq> utf16 '' ''" by code_simp
  have mh: "every_character (buffer onceCompleted @ utf16 ''h'') (characters (word onceCompleted))
              = Inr True" by code_simp
  have mx: "every_character (buffer onceCompleted @ utf16 ''x'') (characters (word onceCompleted))
              = Inr False" by code_simp
  have m: "match (word onceCompleted)" by code_simp
  have g: "targetWPM onceCompleted = 90" by code_simp
  have l: "level onceCompleted = 0" by code_simp
  have a: "activeWordlist [] onceCompleted = exampleWordlist" by code_simp
  note key = replay_after_completion
    [where en = "[]" and now = 2000 and payload = "utf16 ''h''", OF h1 h2 h3 h4 h5]
  note wrong = replay_after_completion
    [where en = "[]" and now = 2000 and payload = "utf16 ''x''", OF h1 h2 h3 h4 h5]
  note space = replay_after_completion
    [where en = "[]" and now = 2000 and payload = "utf16 '' ''", OF h1 h2 h3 h4 h5]
  have r1: "reducer [] 2000 onceCompleted (APPEND_BUFFER (utf16 ''h'')) =
       Inr (onceCompleted\<lparr>
         word := (createWord exampleWordlist 0)\<lparr>
           startTime := Some 2000,
           characters := markCharacters (utf16 ''h'') (characters (createWord exampleWordlist 0)),
           streak := 1 \<rparr>,
         buffer := utf16 ''h'' \<rparr>)"
    using key dh mh by (simp add: m g l a h4 s b)
  have r2: "reducer [] 2000 onceCompleted (APPEND_BUFFER (utf16 ''x'')) =
       Inr (onceCompleted\<lparr>
         word := (word onceCompleted)\<lparr>
           endTime := Some 2000, streak := 0,
           characters := markCharacters (utf16 ''x'') (characters (word onceCompleted)),
           wpm := Some (Fin 0), match := False, hitTargetWPM := False \<rparr>,
         buffer := [] \<rparr>)"
    using wrong dx mx by (simp add: b)
  have r3: "reducer [] 2000 onceCompleted (APPEND_BUFFER (utf16 '' '')) = Inr onceCompleted"
    using space by (simp add: b)
  show ?thesis
    using h1 h2 h3 h4 s t b mh mx r1 r2 r3 by simp
qed

subsection \<open>Streak and speed\<close>

text \<open>
  C6 as stated fails. "hi" typed within the millisecond 1000 and the closing space in
  the same millisecond: the elapsed time is 0, the quotient is \<^verbatim>\<open>Infinity\<close>, and
  \<^verbatim>\<open>Infinity >= 90\<close> is true. Nothing is raised, but the attempt counts as meeting the
  target: \<open>hitTargetWPM\<close> is true and the streak goes from 0 to 1.
\<close>

theorem zero_elapsed_counterexample:
  "buffer sameMillisecond = utf16 ''hi''
   \<and> startTime (word sameMillisecond) = Some 1000
   \<and> endTime (word sameMillisecond) = None
   \<and> streak (word sameMillisecond) = 0
   \<and> targetWPM sameMillisecond = 90
   \<and> wpmOf 3 1000 (Some 1000) = Infinity
   \<and> reducer [] 1000 sameMillisecond (APPEND_BUFFER (utf16 '' '')) =
       Inr (sameMillisecond\<lparr>
         buffer := [],
         word := (word sameMillisecond)\<lparr>
           endTime := Some 1000, streak := 1,
           characters := markCharacters (utf16 ''hi '') (characters (word sameMillisecond)),
           wpm := Some Infinity, match := True, hitTargetWPM := True \<rparr>,
         lastWPM := Some Infinity \<rparr>)"
  by code_simp

text \<open>
  C6, amended. When a key completes the word (instructions hidden, \<open>finished\<close> false,
  streak below the target, all characters matching, \<open>endTime\<close> undefined, a buffer that
  is not empty reaching the length of the word) and the elapsed time \<open>now - startTime\<close>
  is 0, the reducer returns a state, raising nothing, and the attempt counts as meeting
  the target: if the streak plus one is still below the target, the word gets \<open>wpm\<close>
  \<^verbatim>\<open>Infinity\<close>, \<open>hitTargetWPM\<close> true and the streak plus one; otherwise the session is
  finished or moves to the next level.
\<close>

theorem zero_elapsed_hits_target:
  assumes "\<not> showInstructions state" and "\<not> finished state"
    and "\<not> (buffer state = [] \<and> payload = utf16 '' '')"
    and "streak (word state) < targetStreak state"
    and "every_character (buffer state @ payload) (characters (word state)) = Inr True"
    and "endTime (word state) = None"
    and "length (buffer state @ payload) \<ge> length (characters (word state))"
    and "buffer state @ payload \<noteq> []"
    and "startTime (word state) = Some now"
  shows "\<exists>state'. reducer en now state (APPEND_BUFFER payload) = Inr state'
          \<and> (if streak (word state) + 1 < targetStreak state
              then wpm (word state') = Some Infinity
                 \<and> hitTargetWPM (word state')
                 \<and> streak (word state') = streak (word state) + 1
              else finished state' \<or> level state' = level state + 1)"
  using assms by (auto simp: appendBufferStep_def Let_def wpmOf_def)

theorem zero_elapsed_hits_target_witness:
  "\<not> showInstructions sameMillisecond \<and> \<not> finished sameMillisecond
   \<and> buffer sameMillisecond = utf16 ''hi''
   \<and> streak (word sameMillisecond) = 0 \<and> targetStreak sameMillisecond = 5
   \<and> every_character (buffer sameMillisecond @ utf16 '' '') (characters (word sameMillisecond))
       = Inr True
   \<and> endTime (word sameMillisecond) = None
   \<and> length (characters (word sameMillisecond)) = 3
   \<and> startTime (word sameMillisecond) = Some 1000
   \<and> (\<exists>state'. reducer [] 1000 sameMillisecond (APPEND_BUFFER (utf16 '' '')) = Inr state'
          \<and> wpm (word state') = Some Infinity
          \<and> hitTargetWPM (word state')
          \<and> streak (word state') = 1)"
proof -
  have h1: "\<not> showInstructions sameMillisecond" by code_simp
  have h2: "\<not> finished sameMillisecond" by code_simp
  have b: "buffer sameMillisecond = utf16 ''hi''" by code_simp
  have h3: "\<not> (buffer sameMillisecond = [] \<and> utf16 '' '' = utf16 '' '')" by code_simp
  have s: "streak (word sameMillisecond) = 0" by code_simp
  have t: "targetStreak sameMillisecond = 5" by code_simp
  have h4: "streak (word sameMillisecond) < targetStreak sameMillisecond" by (simp add: s t)
  have h5: "every_character (buffer sameMillisecond @ utf16 '' '')
              (characters (word sameMillisecond)) = Inr True" by code_simp
  have h6: "endTime (word sameMillisecond) = None" by code_simp
  have c: "length (characters (word sameMillisecond)) = 3" by code_simp
  have h7: "length (buffer sameMillisecond @ utf16 '' '')
              \<ge> length (characters (word sameMillisecond))" by code_simp
  have h8: "buffer sameMillisecond @ utf16 '' '' \<noteq> []" by code_simp
  have h9: "startTime (word sameMillisecond) = Some 1000" by code_simp
  note inst = zero_elapsed_hits_target
    [where en = "[]" and now = 1000, OF h1 h2 h3 h4 h5 h6 h7 h8 h9]
  show ?thesis
    using h1 h2 b s t h5 h6 c h9 inst by (simp add: s t)
qed




subsection \<open>Level and highest level\<close>

text \<open>
  C9. In a state where \<open>highestLevel\<close> is defined and \<open>level\<close> is at most \<open>highestLevel\<close>,
  every action other than \<^verbatim>\<open>LOAD_STATE\<close> returns a state where \<open>highestLevel\<close> is defined
  and \<open>level\<close> is at most \<open>highestLevel\<close>.
\<close>

theorem level_le_highestLevel_preserved:
  assumes "highestLevel state = Some h" and "level state \<le> h"
    and "\<forall>p. action \<noteq> LOAD_STATE p"
    and "reducer en now state action = Inr state'"
  shows "\<exists>h'. highestLevel state' = Some h' \<and> level state' \<le> h'"
  using assms
  by (cases action)
     (auto simp: appendBufferStep_def Let_def initialState_def defaultLevel_def
           split: if_splits sum.splits option.splits)

theorem level_le_highestLevel_preserved_witness:
  "highestLevel lastKeyPending = Some 0 \<and> level lastKeyPending = 0
   \<and> reducer [] 1200 lastKeyPending (APPEND_BUFFER (utf16 '' '')) = Inr secondLevel
   \<and> level secondLevel = 1
   \<and> (\<exists>h'. highestLevel secondLevel = Some h' \<and> level secondLevel \<le> h')"
proof -
  have h1: "highestLevel lastKeyPending = Some 0" by code_simp
  have l: "level lastKeyPending = 0" by code_simp
  have h2: "level lastKeyPending \<le> 0" by (simp add: l)
  have h3: "\<forall>p. APPEND_BUFFER (utf16 '' '') \<noteq> LOAD_STATE p" by simp
  note h4 = reach_secondLevel
  have l2: "level secondLevel = 1" by code_simp
  note inst = level_le_highestLevel_preserved [OF h1 h2 h3 h4]
  show ?thesis
    using h1 l h4 l2 inst by simp
qed

end
